theory Spec2Isabelle
  imports Complex_Main "HOL-Library.Word" "HOL-Library.Multiset"
begin

section \<open>JavaScript values\<close>

text \<open>
  The program is one React component, \<^verbatim>\<open>App\<close> of \<^verbatim>\<open>src/App.js\<close>. Its state
  variables become a record, each event handler a function from the state (and the
  outside world) to the new state, and every answer of an external service (the
  generative endpoint, the document store) an argument of the handler that awaits it.

  A JavaScript string is a sequence of UTF-16 code units.
\<close>

type_synonym jsstring = "16 word list"

text \<open>An ASCII literal of the source, as a JavaScript string.\<close>

definition js :: "string \<Rightarrow> jsstring" where
  "js s = map (\<lambda>c. of_nat (of_char c)) s"

text \<open>
  The settled state of an awaited promise. A rejection carries the \<^verbatim>\<open>message\<close> of
  the error it rejects with, which is all the handlers read of it.
\<close>

datatype 'a promise = Resolved 'a | Rejected jsstring

text \<open>
  A value produced by \<^verbatim>\<open>JSON.parse\<close>. An object is the list of its own properties
  (\<^verbatim>\<open>JSON.parse\<close> leaves one value per key). A number is kept as the rational its
  double stands for; the program only tests it against zero.
\<close>

datatype json =
    JNull
  | JBool bool
  | JNum rat
  | JStr jsstring
  | JArr "json list"
  | JObj "(jsstring \<times> json) list"

text \<open>
  Truthiness, as \<^verbatim>\<open>!x\<close>, \<^verbatim>\<open>x && y\<close> and \<^verbatim>\<open>x || y\<close> test it. \<open>None\<close> stands for
  \<^verbatim>\<open>null\<close> or \<^verbatim>\<open>undefined\<close>.
\<close>

definition truthy_str :: "jsstring \<Rightarrow> bool" where
  "truthy_str s = (s \<noteq> [])"

definition truthy_opt :: "jsstring option \<Rightarrow> bool" where
  "truthy_opt v = (case v of None \<Rightarrow> False | Some s \<Rightarrow> truthy_str s)"

fun truthy :: "json option \<Rightarrow> bool" where
  "truthy None = False"
| "truthy (Some JNull) = False"
| "truthy (Some (JBool b)) = b"
| "truthy (Some (JNum n)) = (n \<noteq> 0)"
| "truthy (Some (JStr s)) = truthy_str s"
| "truthy (Some (JArr xs)) = True"
| "truthy (Some (JObj kvs)) = True"

text \<open>
  Reading one of the properties \<^verbatim>\<open>candidates\<close>, \<^verbatim>\<open>content\<close>, \<^verbatim>\<open>parts\<close>,
  \<^verbatim>\<open>text\<close> of a value that is neither \<^verbatim>\<open>null\<close> nor \<^verbatim>\<open>undefined\<close>: only an
  object can have them (arrays, strings, numbers and booleans have no property of
  these names, own or inherited), and a missing property reads \<^verbatim>\<open>undefined\<close>.
\<close>

fun get_named :: "jsstring \<Rightarrow> json \<Rightarrow> json option" where
  "get_named k (JObj kvs) = map_of kvs k"
| "get_named k v = None"

text \<open>
  Reading \<^verbatim>\<open>[0]\<close> of such a value: the first element of an array, the first code
  unit of a string (as a string of length one), the property \<^verbatim>\<open>"0"\<close> of an object.
\<close>

fun get_first :: "json \<Rightarrow> json option" where
  "get_first (JArr xs) = (case xs of [] \<Rightarrow> None | x # rest \<Rightarrow> Some x)"
| "get_first (JStr s) = (case s of [] \<Rightarrow> None | c # rest \<Rightarrow> Some (JStr [c]))"
| "get_first (JObj kvs) = map_of kvs (js ''0'')"
| "get_first v = None"

text \<open>
  Optional chaining \<^verbatim>\<open>v?.p\<close>: \<^verbatim>\<open>undefined\<close> when \<open>v\<close> is \<^verbatim>\<open>null\<close> or
  \<^verbatim>\<open>undefined\<close>, the property read otherwise.
\<close>

definition opt_chain :: "(json \<Rightarrow> json option) \<Rightarrow> json option \<Rightarrow> json option" where
  "opt_chain rd v = (case v of None \<Rightarrow> None | Some JNull \<Rightarrow> None | Some x \<Rightarrow> rd x)"

section \<open>String literals of the source\<close>

text \<open>
  The user-facing texts of the source are Korean; each is given by its code units, with
  the line of \<^verbatim>\<open>App.js\<close> it comes from.
\<close>

text \<open>App.js line 116, the message set when the history subscription reports an error
  (in English: the study history could not be loaded).\<close>

definition msg_history_failed :: jsstring where
  "msg_history_failed =
    [0xD559, 0xC2B5, 0x0020, 0xAE30, 0xB85D, 0xC744, 0x0020, 0xBD88, 0xB7EC, 0xC624,
     0xB294, 0x0020, 0xB370, 0x0020, 0xC2E4, 0xD328, 0xD588, 0xC2B5, 0xB2C8, 0xB2E4,
     0x002E]"

text \<open>App.js line 131, the message set when saving the MBTI fails.\<close>

definition msg_mbti_save_failed :: jsstring where
  "msg_mbti_save_failed =
    [0x004D, 0x0042, 0x0054, 0x0049, 0x0020, 0xC815, 0xBCF4, 0xB97C, 0x0020, 0xC800,
     0xC7A5, 0xD558, 0xB294, 0x0020, 0xB370, 0x0020, 0xC2E4, 0xD328, 0xD588, 0xC2B5,
     0xB2C8, 0xB2E4, 0x002E]"

text \<open>App.js line 151, the validation message for an empty submission
  (in English: please enter a question, a text or an image).\<close>

definition msg_empty_input :: jsstring where
  "msg_empty_input =
    [0xC9C8, 0xBB38, 0x002C, 0x0020, 0xD14D, 0xC2A4, 0xD2B8, 0x0020, 0xB610, 0xB294,
     0x0020, 0xC774, 0xBBF8, 0xC9C0, 0xB97C, 0x0020, 0xC785, 0xB825, 0xD574, 0xC8FC,
     0xC138, 0xC694, 0x002E]"

text \<open>App.js line 155, the validation message of mentor mode without an MBTI
  (in English: please choose your MBTI before mentoring starts).\<close>

definition msg_need_mbti :: jsstring where
  "msg_need_mbti =
    [0xBA58, 0xD1A0, 0xB9C1, 0xC744, 0x0020, 0xC2DC, 0xC791, 0xD558, 0xAE30, 0x0020,
     0xC804, 0xC5D0, 0x0020, 0x004D, 0x0042, 0x0054, 0x0049, 0xB97C, 0x0020, 0xC120,
     0xD0DD, 0xD574, 0xC8FC, 0xC138, 0xC694, 0x002E]"

text \<open>App.js lines 166 to 176: the mentor template literal, cut at its three interpolations.
  It starts with a line break and sixteen spaces; every line break of the source is a
  code unit 0x000A of the string. First piece, up to the first \<^verbatim>\<open>${studentMbti}\<close>.\<close>

definition tmpl_mentor_1 :: jsstring where
  "tmpl_mentor_1 =
    [0x000A, 0x0020, 0x0020, 0x0020, 0x0020, 0x0020, 0x0020, 0x0020, 0x0020, 0x0020,
     0x0020, 0x0020, 0x0020, 0x0020, 0x0020, 0x0020, 0x0020, 0xB2F9, 0xC2E0, 0xC740,
     0x0020, 0xCD08, 0xB4F1, 0xD559, 0xC0DD, 0xC744, 0x0020, 0xC704, 0xD55C, 0x0020,
     0x0041, 0x0049, 0x0020, 0xD559, 0xC2B5, 0x0020, 0xBA58, 0xD1A0, 0xC785, 0xB2C8,
     0xB2E4, 0x002E, 0x0020, 0xC774, 0x0020, 0xD559, 0xC0DD, 0xC758, 0x0020, 0x004D,
     0x0042, 0x0054, 0x0049, 0xB294, 0x0020]"

text \<open>Second piece, between the two \<^verbatim>\<open>${studentMbti}\<close>.\<close>

definition tmpl_mentor_2 :: jsstring where
  "tmpl_mentor_2 =
    [0xC785, 0xB2C8, 0xB2E4, 0x002E, 0x000A, 0x0020, 0x0020, 0x0020, 0x0020, 0x0020,
     0x0020, 0x0020, 0x0020, 0x0020, 0x0020, 0x0020, 0x0020, 0x0020, 0x0020, 0x0020,
     0x0020, 0xB2F9, 0xC2E0, 0xC758, 0x0020, 0xC5ED, 0xD560, 0xC740, 0x0020, 0xC815,
     0xB2F5, 0xC744, 0x0020, 0xC9C1, 0xC811, 0x0020, 0xC54C, 0xB824, 0xC8FC, 0xB294,
     0x0020, 0xAC83, 0xC774, 0x0020, 0xC544, 0xB2C8, 0xB77C, 0x002C, 0x0020, 0xD559,
     0xC0DD, 0xC774, 0x0020, 0xC2A4, 0xC2A4, 0xB85C, 0x0020, 0xBB38, 0xC81C, 0xB97C,
     0x0020, 0xD574, 0xACB0, 0xD558, 0xB3C4, 0xB85D, 0x0020, 0xB3D5, 0xB294, 0x0020,
     0xAC83, 0xC785, 0xB2C8, 0xB2E4, 0x002E, 0x000A, 0x0020, 0x0020, 0x0020, 0x0020,
     0x0020, 0x0020, 0x0020, 0x0020, 0x0020, 0x0020, 0x0020, 0x0020, 0x0020, 0x0020,
     0x0020, 0x0020, 0xB2E4, 0xC74C, 0x0020, 0xADDC, 0xCE59, 0xC744, 0x0020, 0xBC18,
     0xB4DC, 0xC2DC, 0x0020, 0xC9C0, 0xCF1C, 0xC8FC, 0xC138, 0xC694, 0x003A, 0x000A,
     0x0020, 0x0020, 0x0020, 0x0020, 0x0020, 0x0020, 0x0020, 0x0020, 0x0020, 0x0020,
     0x0020, 0x0020, 0x0020, 0x0020, 0x0020, 0x0020, 0x0031, 0x002E, 0x0020, 0xC808,
     0xB300, 0xB85C, 0x0020, 0xBB38, 0xC81C, 0xC758, 0x0020, 0xCD5C, 0xC885, 0x0020,
     0xC815, 0xB2F5, 0xC744, 0x0020, 0xB9D0, 0xD558, 0xC9C0, 0x0020, 0xB9C8, 0xC138,
     0xC694, 0x002E, 0x000A, 0x0020, 0x0020, 0x0020, 0x0020, 0x0020, 0x0020, 0x0020,
     0x0020, 0x0020, 0x0020, 0x0020, 0x0020, 0x0020, 0x0020, 0x0020, 0x0020, 0x0032,
     0x002E, 0x0020, 0xD559, 0xC0DD, 0xC758, 0x0020, 0xC9C8, 0xBB38, 0xC5D0, 0x0020,
     0xB300, 0xD574, 0x002C, 0x0020, 0xBB38, 0xC81C, 0xB97C, 0x0020, 0xD574, 0xACB0,
     0xD558, 0xAE30, 0x0020, 0xC704, 0xD574, 0x0020, 0xC5B4, 0xB5A4, 0x0020, 0xAC1C,
     0xB150, 0xC744, 0x0020, 0xC54C, 0xC544, 0xC57C, 0x0020, 0xD558, 0xB294, 0xC9C0,
     0x002C, 0x0020, 0xD639, 0xC740, 0x0020, 0xC5B4, 0xB5A4, 0x0020, 0xC21C, 0xC11C,
     0xB85C, 0x0020, 0xC811, 0xADFC, 0xD558, 0xBA74, 0x0020, 0xC88B, 0xC744, 0xC9C0,
     0x0020, 0xB2E8, 0xACC4, 0xBCC4, 0xB85C, 0x0020, 0xC548, 0xB0B4, 0xD574, 0xC8FC,
     0xC138, 0xC694, 0x002E, 0x000A, 0x0020, 0x0020, 0x0020, 0x0020, 0x0020, 0x0020,
     0x0020, 0x0020, 0x0020, 0x0020, 0x0020, 0x0020, 0x0020, 0x0020, 0x0020, 0x0020,
     0x0033, 0x002E, 0x0020, 0xCE5C, 0xC808, 0xD558, 0xACE0, 0x0020, 0xACA9, 0xB824,
     0xD558, 0xB294, 0x0020, 0xB9D0, 0xD22C, 0xB97C, 0x0020, 0xC0AC, 0xC6A9, 0xD558,
     0xBA70, 0x002C, 0x0020, 0xD559, 0xC0DD, 0xC758, 0x0020, 0x004D, 0x0042, 0x0054,
     0x0049, 0x0028]"

text \<open>Third piece, from the second \<^verbatim>\<open>${studentMbti}\<close> to \<^verbatim>\<open>${prompt}\<close>.\<close>

definition tmpl_mentor_3 :: jsstring where
  "tmpl_mentor_3 =
    [0x0029, 0x0020, 0xC131, 0xD5A5, 0xC744, 0x0020, 0xACE0, 0xB824, 0xD558, 0xC5EC,
     0x0020, 0xC18C, 0xD1B5, 0xD574, 0xC8FC, 0xC138, 0xC694, 0x002E, 0x000A, 0x0020,
     0x0020, 0x0020, 0x0020, 0x0020, 0x0020, 0x0020, 0x0020, 0x0020, 0x0020, 0x0020,
     0x0020, 0x0020, 0x0020, 0x0020, 0x0020, 0x0034, 0x002E, 0x0020, 0xC5B4, 0xB824,
     0xC6B4, 0x0020, 0xC6A9, 0xC5B4, 0xB294, 0x0020, 0xCD08, 0xB4F1, 0xD559, 0xC0DD,
     0x0020, 0xB208, 0xB192, 0xC774, 0xC5D0, 0x0020, 0xB9DE, 0xCDB0, 0x0020, 0xC27D,
     0xAC8C, 0x0020, 0xC124, 0xBA85, 0xD574, 0xC8FC, 0xC138, 0xC694, 0x002E, 0x000A,
     0x000A, 0x0020, 0x0020, 0x0020, 0x0020, 0x0020, 0x0020, 0x0020, 0x0020, 0x0020,
     0x0020, 0x0020, 0x0020, 0x0020, 0x0020, 0x0020, 0x0020, 0xD559, 0xC0DD, 0xC758,
     0x0020, 0xC9C8, 0xBB38, 0x003A, 0x0020, 0x0022]"

text \<open>Last piece, after \<^verbatim>\<open>${prompt}\<close>: the closing quotation mark, a line break and twelve spaces.\<close>

definition tmpl_mentor_4 :: jsstring where
  "tmpl_mentor_4 =
    [0x0022, 0x000A, 0x0020, 0x0020, 0x0020, 0x0020, 0x0020, 0x0020, 0x0020, 0x0020,
     0x0020, 0x0020, 0x0020, 0x0020]"

text \<open>App.js line 180, the wrapper before \<^verbatim>\<open>${prompt}\<close> (in English: answer the following question in detail).\<close>

definition tmpl_qa :: jsstring where
  "tmpl_qa =
    [0xB2E4, 0xC74C, 0x0020, 0xC9C8, 0xBB38, 0xC5D0, 0x0020, 0xB300, 0xD574, 0x0020,
     0xC790, 0xC138, 0xD788, 0x0020, 0xB2F5, 0xBCC0, 0xD574, 0xC918, 0x003A, 0x0020]"

text \<open>App.js line 181, the wrapper before \<^verbatim>\<open>${prompt}\<close> (in English: summarise the following text to its key points).\<close>

definition tmpl_summary :: jsstring where
  "tmpl_summary =
    [0xB2E4, 0xC74C, 0x0020, 0xD14D, 0xC2A4, 0xD2B8, 0xB97C, 0x0020, 0xD575, 0xC2EC,
     0xB9CC, 0x0020, 0xAC04, 0xCD94, 0xB824, 0x0020, 0xC694, 0xC57D, 0xD574, 0xC918,
     0x003A, 0x0020]"

text \<open>App.js line 182, the wrapper before \<^verbatim>\<open>${prompt}\<close> (in English: make three multiple-choice quiz questions, with the answer after each).\<close>

definition tmpl_quiz :: jsstring where
  "tmpl_quiz =
    [0xB2E4, 0xC74C, 0x0020, 0xB0B4, 0xC6A9, 0xC774, 0xB098, 0x0020, 0xC8FC, 0xC81C,
     0xB97C, 0x0020, 0xBC14, 0xD0D5, 0xC73C, 0xB85C, 0x0020, 0xAC1D, 0xAD00, 0xC2DD,
     0x0020, 0xD034, 0xC988, 0x0020, 0x0033, 0xAC1C, 0xB97C, 0x0020, 0xB9CC, 0xB4E4,
     0xC5B4, 0xC918, 0x002E, 0x0020, 0xAC01, 0x0020, 0xC9C8, 0xBB38, 0x0020, 0xB4A4,
     0xC5D0, 0x0020, 0xC815, 0xB2F5, 0xB3C4, 0x0020, 0xC54C, 0xB824, 0xC918, 0x003A,
     0x0020]"

text \<open>App.js line 183, the wrapper before \<^verbatim>\<open>${prompt}\<close> (in English: answer the following question about this image).\<close>

definition tmpl_image :: jsstring where
  "tmpl_image =
    [0xC774, 0x0020, 0xC774, 0xBBF8, 0xC9C0, 0xC5D0, 0x0020, 0xB300, 0xD574, 0x0020,
     0xB2E4, 0xC74C, 0x0020, 0xC9C8, 0xBB38, 0xC5D0, 0x0020, 0xB2F5, 0xBCC0, 0xD574,
     0xC918, 0x003A, 0x0020]"

text \<open>App.js line 198, the message of the error thrown on a response that is not ok, before the
  status text (in English: API request failed).\<close>

definition msg_api_failed :: jsstring where
  "msg_api_failed =
    [0x0041, 0x0050, 0x0049, 0x0020, 0xC694, 0xCCAD, 0x0020, 0xC2E4, 0xD328, 0x003A,
     0x0020]"

text \<open>App.js line 200, the placeholder taken when the response has no text
  (in English: no valid response was received).\<close>

definition msg_no_valid_response :: jsstring where
  "msg_no_valid_response =
    [0xC720, 0xD6A8, 0xD55C, 0x0020, 0xC751, 0xB2F5, 0xC744, 0x0020, 0xBC1B, 0xC9C0,
     0x0020, 0xBABB, 0xD588, 0xC2B5, 0xB2C8, 0xB2E4, 0x002E]"

text \<open>App.js line 215, the message of the catch block, before the error's own message
  (in English: an error occurred while generating the AI response).\<close>

definition msg_error_prefix :: jsstring where
  "msg_error_prefix =
    [0x0041, 0x0049, 0x0020, 0xC751, 0xB2F5, 0x0020, 0xC0DD, 0xC131, 0x0020, 0xC911,
     0x0020, 0xC624, 0xB958, 0xAC00, 0x0020, 0xBC1C, 0xC0DD, 0xD588, 0xC2B5, 0xB2C8,
     0xB2E4, 0x003A, 0x0020]"

section \<open>Data model\<close>

text \<open>
  The \<^verbatim>\<open>File\<close> picked in the file input; \<^verbatim>\<open>name\<close> and \<^verbatim>\<open>type\<close> are the two
  properties the component reads.
\<close>

record image_file =
  file_name :: jsstring
  file_type :: jsstring

text \<open>
  A Firestore \<^verbatim>\<open>Timestamp\<close>, the value the store gives a \<^verbatim>\<open>timestamp\<close> field:
  whole seconds since the epoch and the nanoseconds within the second.
\<close>

record timestamp =
  seconds :: int
  nanoseconds :: nat

text \<open>
  A document of the \<^verbatim>\<open>studyHistory\<close> collection as the snapshot callback pushes
  it (line 110): the document id and the fields written on lines 206 to 210.
  \<open>item_timestamp\<close> is \<open>None\<close> for a \<^verbatim>\<open>null\<close> timestamp, which a document has
  while the server has not yet assigned it. \<open>item_response\<close> is a JavaScript value,
  since line 200 keeps whatever truthy value the response has in the place of the text.
\<close>

record exchange =
  item_id :: jsstring
  item_type :: jsstring
  item_prompt :: jsstring
  item_response :: json
  item_mbti :: "jsstring option"
  item_timestamp :: "timestamp option"

text \<open>
  The object handed to \<^verbatim>\<open>addDoc\<close> (lines 205 to 211). Its \<^verbatim>\<open>timestamp\<close> field is
  the sentinel that \<^verbatim>\<open>serverTimestamp()\<close> returns, not a time.
\<close>

datatype field_value = ServerTimestamp

record exchange_data =
  data_type :: jsstring
  data_prompt :: jsstring
  data_response :: json
  data_mbti :: "jsstring option"
  data_timestamp :: field_value

text \<open>The request body (line 188): \<^verbatim>\<open>{ contents: [{ role, parts }] }\<close>.\<close>

datatype part =
    TextPart jsstring
  | InlineData jsstring jsstring

record content =
  role :: jsstring
  parts :: "part list"

record payload =
  contents :: "content list"

text \<open>
  The state variables of the component (lines 32 to 50). \<open>db\<close> tells whether the
  Firestore handle is set; \<open>fileInput\<close> is the \<^verbatim>\<open>value\<close> of the file input that
  \<^verbatim>\<open>fileInputRef.current\<close> points to, \<open>None\<close> when the reference is \<^verbatim>\<open>null\<close>
  (the input is rendered on the image tab only). The variables \<^verbatim>\<open>auth\<close> and
  \<^verbatim>\<open>isAuthReady\<close> are read by none of the handlers below and are left out.
\<close>

record app_state =
  db :: bool
  userId :: "jsstring option"
  activeTab :: jsstring
  prompt :: jsstring
  imageFile :: "image_file option"
  imageBase64 :: "jsstring option"
  response :: json
  isLoading :: bool
  history :: "exchange list"
  error :: jsstring
  fileInput :: "jsstring option"
  studentMbti :: "jsstring option"
  showMbtiModal :: bool

text \<open>
  What the handlers can change outside the component: the requests posted to the
  generative endpoint (oldest first), the documents of the user's \<^verbatim>\<open>studyHistory\<close>
  collection, and the fields of the user's profile document.
\<close>

record world =
  requests :: "payload list"
  studyHistory :: "exchange list"
  profileDoc :: "jsstring \<rightharpoonup> jsstring"

text \<open>
  The response \<^verbatim>\<open>fetch\<close> resolves with: \<^verbatim>\<open>ok\<close>, \<^verbatim>\<open>statusText\<close> and the outcome of
  \<^verbatim>\<open>json()\<close>, which rejects when the body is not JSON.
\<close>

record http_response =
  ok :: bool
  statusText :: jsstring
  json_body :: "json promise"

text \<open>
  What the outside answers during one run of \<^verbatim>\<open>getAiResponse\<close>: the outcome of
  \<^verbatim>\<open>fetch\<close>; the outcome of \<^verbatim>\<open>addDoc\<close>, which on success is the id of the new
  document and the time the server assigned to it; and the message the JavaScript
  engine gives the \<^verbatim>\<open>TypeError\<close> of reading a property of \<^verbatim>\<open>null\<close>.
\<close>

record gateway_env =
  fetch_result :: "http_response promise"
  addDoc_result :: "(jsstring \<times> timestamp) promise"
  null_read_message :: jsstring

section \<open>The history subscription (lines 107 to 117)\<close>

text \<open>
  \<^verbatim>\<open>Array.prototype.sort\<close> with a comparison function. The sort is stable, and for
  a comparison function that orders its arguments consistently the result is the one
  list that is sorted and keeps equal elements in their first order; insertion from the
  right computes it. \<open>cmp a b \<le> 0\<close> leaves \<open>a\<close> before \<open>b\<close>.
\<close>

fun js_insert :: "('a \<Rightarrow> 'a \<Rightarrow> int) \<Rightarrow> 'a \<Rightarrow> 'a list \<Rightarrow> 'a list" where
  "js_insert cmp x [] = [x]"
| "js_insert cmp x (y # ys) =
     (if cmp x y \<le> 0 then x # y # ys else y # js_insert cmp x ys)"

definition js_sort :: "('a \<Rightarrow> 'a \<Rightarrow> int) \<Rightarrow> 'a list \<Rightarrow> 'a list" where
  "js_sort cmp xs = foldr (js_insert cmp) xs []"

text \<open>
  \<^verbatim>\<open>Timestamp.toDate()\<close> of the Firestore SDK, by the time value of the \<^verbatim>\<open>Date\<close> it
  returns: \<^verbatim>\<open>new Date(seconds * 1000 + nanoseconds / 1e6)\<close>, and the \<^verbatim>\<open>Date\<close>
  constructor drops the fraction of a millisecond (it truncates toward zero). The sum
  is computed exactly here, where the SDK computes it in double precision.
\<close>

definition toDate :: "timestamp \<Rightarrow> int" where
  "toDate t =
     (let ns = seconds t * 1000000000 + int (nanoseconds t)
      in if 0 \<le> ns then ns div 1000000 else - ((- ns) div 1000000))"

text \<open>\<^verbatim>\<open>x.timestamp?.toDate()\<close>: \<^verbatim>\<open>undefined\<close> for a missing timestamp.\<close>

definition date_of :: "exchange \<Rightarrow> int option" where
  "date_of x = (case item_timestamp x of None \<Rightarrow> None | Some t \<Rightarrow> Some (toDate t))"

text \<open>
  \<^verbatim>\<open>x.timestamp?.toDate() || 0\<close> as the number the subtraction of line 112 sees: a
  \<^verbatim>\<open>Date\<close> is truthy whatever its time, and a missing timestamp gives \<open>0\<close>.
\<close>

definition ts_millis :: "exchange \<Rightarrow> int" where
  "ts_millis x = (case date_of x of None \<Rightarrow> 0 | Some d \<Rightarrow> d)"

definition compare_history :: "exchange \<Rightarrow> exchange \<Rightarrow> int" where
  "compare_history a b = ts_millis b - ts_millis a"

text \<open>The snapshot callback: the whole list is replaced by the sorted documents.\<close>

definition onSnapshot_next :: "exchange list \<Rightarrow> app_state \<Rightarrow> app_state" where
  "onSnapshot_next docs s = s\<lparr>history := js_sort compare_history docs\<rparr>"

definition onSnapshot_error :: "app_state \<Rightarrow> app_state" where
  "onSnapshot_error s = s\<lparr>error := msg_history_failed\<rparr>"

section \<open>Choosing an MBTI (lines 122 to 133)\<close>

text \<open>
  \<open>setDoc_result\<close> is the outcome of the merge-write \<^verbatim>\<open>setDoc(ref, {mbti}, {merge: true})\<close>;
  a write that succeeds sets the field \<^verbatim>\<open>mbti\<close> of the profile document and leaves
  its other fields.
\<close>

definition handleMbtiSelect ::
  "unit promise \<Rightarrow> jsstring \<Rightarrow> app_state \<times> world \<Rightarrow> app_state \<times> world" where
  "handleMbtiSelect setDoc_result mbti sw =
     (case sw of (s, w) \<Rightarrow>
        if \<not> db s \<or> \<not> truthy_opt (userId s) then (s, w)
        else
          let s1 = s\<lparr>studentMbti := Some mbti\<rparr> in
          (case setDoc_result of
             Resolved u \<Rightarrow>
               (s1\<lparr>showMbtiModal := False\<rparr>,
                w\<lparr>profileDoc := (profileDoc w)(js ''mbti'' \<mapsto> mbti)\<rparr>)
           | Rejected m \<Rightarrow> (s1\<lparr>error := msg_mbti_save_failed\<rparr>, w)))"

section \<open>Asking the model (lines 149 to 223)\<close>

text \<open>
  The template of lines 164 to 186, from the three variables it reads. In a template
  literal \<^verbatim>\<open>null\<close> prints as the four letters \<^verbatim>\<open>null\<close>.
\<close>

definition fullPrompt :: "jsstring \<Rightarrow> jsstring option \<Rightarrow> jsstring \<Rightarrow> jsstring" where
  "fullPrompt tab mbti p =
     (if tab = js ''mentor'' then
        (let m = (case mbti of None \<Rightarrow> js ''null'' | Some c \<Rightarrow> c)
         in tmpl_mentor_1 @ m @ tmpl_mentor_2 @ m @ tmpl_mentor_3 @ p @ tmpl_mentor_4)
      else if tab = js ''qa'' then tmpl_qa @ p
      else if tab = js ''summary'' then tmpl_summary @ p
      else if tab = js ''quiz'' then tmpl_quiz @ p
      else if tab = js ''image'' then tmpl_image @ p
      else p)"

text \<open>
  The request body of lines 188 to 191. On the image tab with a truthy
  \<^verbatim>\<open>imageBase64\<close>, line 190 reads \<^verbatim>\<open>imageFile.type\<close>; with \<^verbatim>\<open>imageFile\<close> being
  \<^verbatim>\<open>null\<close> that read throws, outside the \<^verbatim>\<open>try\<close> block: the result \<open>None\<close>.
\<close>

definition build_payload :: "app_state \<Rightarrow> payload option" where
  "build_payload s =
     (let text_part = TextPart (fullPrompt (activeTab s) (studentMbti s) (prompt s)) in
      if activeTab s = js ''image'' \<and> truthy_opt (imageBase64 s) then
        (case imageFile s of
           None \<Rightarrow> None
         | Some f \<Rightarrow>
             Some \<lparr>contents = [\<lparr>role = js ''user'',
               parts = [text_part, InlineData (file_type f) (the (imageBase64 s))]\<rparr>]\<rparr>)
      else Some \<lparr>contents = [\<lparr>role = js ''user'', parts = [text_part]\<rparr>]\<rparr>)"

text \<open>
  Line 200, for a \<^verbatim>\<open>result\<close> that is not \<^verbatim>\<open>null\<close>:
  \<^verbatim>\<open>result.candidates?.[0]?.content?.parts?.[0]?.text\<close>.
\<close>

definition extract_text :: "json \<Rightarrow> json option" where
  "extract_text result =
     opt_chain (get_named (js ''text''))
       (opt_chain get_first
         (opt_chain (get_named (js ''parts''))
           (opt_chain (get_named (js ''content''))
             (opt_chain get_first
               (get_named (js ''candidates'') result)))))"

definition generatedText :: "json \<Rightarrow> json" where
  "generatedText result =
     (let v = extract_text result in
      if truthy v then the v else JStr msg_no_valid_response)"

text \<open>The document store committing an \<^verbatim>\<open>addDoc\<close>: it assigns the id and the time.\<close>

definition store_commit :: "jsstring \<Rightarrow> timestamp \<Rightarrow> exchange_data \<Rightarrow> exchange" where
  "store_commit new_id server_time d =
     (case data_timestamp d of
        ServerTimestamp \<Rightarrow>
          \<lparr>item_id = new_id, item_type = data_type d, item_prompt = data_prompt d,
           item_response = data_response d, item_mbti = data_mbti d,
           item_timestamp = Some server_time\<rparr>)"

text \<open>The \<^verbatim>\<open>catch\<close> block (lines 213 to 215) with the message of the caught error.\<close>

definition catch_block :: "jsstring \<Rightarrow> app_state \<times> world \<Rightarrow> app_state \<times> world" where
  "catch_block m sw = (case sw of (s, w) \<Rightarrow> (s\<lparr>error := msg_error_prefix @ m\<rparr>, w))"

text \<open>The \<^verbatim>\<open>finally\<close> block (lines 216 to 222).\<close>

definition finally_block :: "app_state \<times> world \<Rightarrow> app_state \<times> world" where
  "finally_block sw =
     (case sw of (s, w) \<Rightarrow>
        (s\<lparr>isLoading := False, prompt := [], imageFile := None, imageBase64 := None,
           fileInput := (case fileInput s of None \<Rightarrow> None | Some v \<Rightarrow> Some [])\<rparr>, w))"

text \<open>
  The \<^verbatim>\<open>try\<close> block (lines 196 to 212), after the request has left. \<open>s0\<close> is the
  state the handler was created in, whose \<^verbatim>\<open>activeTab\<close>, \<^verbatim>\<open>prompt\<close>,
  \<^verbatim>\<open>studentMbti\<close>, \<^verbatim>\<open>db\<close> and \<^verbatim>\<open>userId\<close> the closure reads.
\<close>

definition try_block ::
  "gateway_env \<Rightarrow> app_state \<Rightarrow> app_state \<times> world \<Rightarrow> app_state \<times> world" where
  "try_block env s0 sw =
     (case sw of (s, w) \<Rightarrow>
        (case fetch_result env of
           Rejected m \<Rightarrow> catch_block m (s, w)
         | Resolved apiResponse \<Rightarrow>
             if \<not> ok apiResponse then
               catch_block (msg_api_failed @ statusText apiResponse) (s, w)
             else
               (case json_body apiResponse of
                  Rejected m \<Rightarrow> catch_block m (s, w)
                | Resolved result \<Rightarrow>
                    if result = JNull then catch_block (null_read_message env) (s, w)
                    else
                      let s2 = s\<lparr>response := generatedText result\<rparr> in
                      if db s0 \<and> truthy_opt (userId s0) then
                        (case addDoc_result env of
                           Rejected m \<Rightarrow> catch_block m (s2, w)
                         | Resolved (new_id, server_time) \<Rightarrow>
                             (s2, w\<lparr>studyHistory := studyHistory w @
                                [store_commit new_id server_time
                                  \<lparr>data_type = activeTab s0, data_prompt = prompt s0,
                                   data_response = generatedText result,
                                   data_mbti = (if truthy_opt (studentMbti s0)
                                                then studentMbti s0 else None),
                                   data_timestamp = ServerTimestamp\<rparr>]\<rparr>))
                      else (s2, w))))"

text \<open>
  The handler. It is taken as one step: no other event of the component runs between
  its start and the end of its \<^verbatim>\<open>finally\<close> block.
\<close>

definition getAiResponse :: "gateway_env \<Rightarrow> app_state \<times> world \<Rightarrow> app_state \<times> world" where
  "getAiResponse env sw =
     (case sw of (s, w) \<Rightarrow>
        if \<not> truthy_str (prompt s) \<and> \<not> truthy_opt (imageBase64 s) then
          (s\<lparr>error := msg_empty_input\<rparr>, w)
        else if activeTab s = js ''mentor'' \<and> \<not> truthy_opt (studentMbti s) then
          (s\<lparr>error := msg_need_mbti, showMbtiModal := True\<rparr>, w)
        else
          let s1 = s\<lparr>isLoading := True, response := JStr [], error := []\<rparr> in
          (case build_payload s of
             None \<Rightarrow> (s1, w)
           | Some body \<Rightarrow>
               finally_block
                 (try_block env s (s1, w\<lparr>requests := requests w @ [body]\<rparr>))))"

section \<open>Recalling a history entry (line 358)\<close>

definition historyClick :: "exchange \<Rightarrow> app_state \<times> world \<Rightarrow> app_state \<times> world" where
  "historyClick item sw =
     (case sw of (s, w) \<Rightarrow>
        (s\<lparr>response := item_response item, prompt := item_prompt item,
           activeTab := item_type item\<rparr>, w))"


section \<open>Concrete inputs\<close>

text \<open>The state the component starts in: the arguments of \<^verbatim>\<open>useState\<close>, lines 32 to 50.\<close>

definition init_state :: app_state where
  "init_state =
     \<lparr>db = False, userId = None, activeTab = js ''mentor'', prompt = [],
      imageFile = None, imageBase64 = None, response = JStr [], isLoading = False,
      history = [], error = [], fileInput = None, studentMbti = None,
      showMbtiModal = False\<rparr>"

text \<open>The state once Firebase is initialised and the user is signed in.\<close>

definition signed_in_state :: app_state where
  "signed_in_state = init_state\<lparr>db := True, userId := Some (js ''uid-1'')\<rparr>"

definition empty_world :: world where
  "empty_world = \<lparr>requests = [], studyHistory = [], profileDoc = Map.empty\<rparr>"

text \<open>
  A response body of the shape the endpoint documents:
  \<^verbatim>\<open>{"candidates": [{"content": {"parts": [{"text": t}]}}]}\<close>.
\<close>

definition answer_body :: "jsstring \<Rightarrow> json" where
  "answer_body t =
     JObj [(js ''candidates'',
       JArr [JObj [(js ''content'',
         JObj [(js ''parts'', JArr [JObj [(js ''text'', JStr t)]])])]])]"

text \<open>A time the server assigns: 3 November 2025, 00:00:00 UTC.\<close>

definition assigned_time :: timestamp where
  "assigned_time = \<lparr>seconds = 1762128000, nanoseconds = 0\<rparr>"

text \<open>An outside in which the endpoint answers with the given body and the store accepts the write.\<close>

definition answering_env :: "json promise \<Rightarrow> gateway_env" where
  "answering_env b =
     \<lparr>fetch_result = Resolved \<lparr>ok = True, statusText = js ''OK'', json_body = b\<rparr>,
      addDoc_result = Resolved (js ''doc-1'', assigned_time),
      null_read_message = js ''Cannot read properties of null''\<rparr>"

text \<open>An outside in which the endpoint answers with status 500.\<close>

definition failing_env :: gateway_env where
  "failing_env =
     \<lparr>fetch_result = Resolved \<lparr>ok = False, statusText = js ''Internal Server Error'',
        json_body = Rejected (js ''Unexpected end of JSON input'')\<rparr>,
      addDoc_result = Resolved (js ''doc-1'', assigned_time),
      null_read_message = js ''Cannot read properties of null''\<rparr>"

definition png_file :: image_file where
  "png_file = \<lparr>file_name = js ''a.png'', file_type = js ''image/png''\<rparr>"

definition history_doc :: "jsstring \<Rightarrow> timestamp option \<Rightarrow> exchange" where
  "history_doc i t =
     \<lparr>item_id = i, item_type = js ''qa'', item_prompt = js ''q'',
      item_response = JStr (js ''a''), item_mbti = None, item_timestamp = t\<rparr>"

text \<open>A question typed on the Q&A tab by a signed-in user, with no image.\<close>

definition qa_submission :: app_state where
  "qa_submission = signed_in_state\<lparr>activeTab := js ''qa'', prompt := js ''x''\<rparr>"

text \<open>The same question before Firebase is initialised: no store handle, no user.\<close>

definition qa_submission_offline :: app_state where
  "qa_submission_offline = init_state\<lparr>activeTab := js ''qa'', prompt := js ''x''\<rparr>"

text \<open>
  The Q&A tab with a question and an image that was picked on the image tab before the
  tab was changed; the file input is no longer rendered.
\<close>

definition qa_submission_with_image :: app_state where
  "qa_submission_with_image =
     signed_in_state\<lparr>activeTab := js ''qa'', prompt := js ''x'',
       imageFile := Some png_file, imageBase64 := Some (js ''aGk='')\<rparr>"

text \<open>The image tab with a question and a picked image.\<close>

definition image_submission :: app_state where
  "image_submission =
     signed_in_state\<lparr>activeTab := js ''image'', prompt := js ''x'',
       imageFile := Some png_file, imageBase64 := Some (js ''aGk=''),
       fileInput := Some (js ''a.png'')\<rparr>"

text \<open>The request body of the question \<^verbatim>\<open>x\<close> on the Q&A tab.\<close>

definition qa_body :: payload where
  "qa_body = \<lparr>contents = [\<lparr>role = js ''user'', parts = [TextPart (tmpl_qa @ js ''x'')]\<rparr>]\<rparr>"

text \<open>
  The state after a question was submitted on the mentor tab before Firebase is
  initialised: line 156 has opened the MBTI modal.
\<close>

definition modal_open_offline :: app_state where
  "modal_open_offline =
     init_state\<lparr>prompt := js ''why'', error := msg_need_mbti, showMbtiModal := True\<rparr>"




text \<open>A document dated one second before the epoch, and one with no time yet.\<close>

definition pre_epoch_doc :: exchange where
  "pre_epoch_doc = history_doc (js ''p'') (Some \<lparr>seconds = - 1, nanoseconds = 0\<rparr>)"

definition pending_doc :: exchange where
  "pending_doc = history_doc (js ''q'') None"

section \<open>The order of the history list\<close>



section \<open>Strings\<close>

text \<open>The ASCII literals are told apart by their letters.\<close>

lemma code_unit_inj:
  assumes "(of_nat (of_char c) :: 16 word) = of_nat (of_char d)"
  shows "c = d"
proof -
  have small: "(of_char x :: nat) < 2 ^ LENGTH(16)" for x :: char
  proof -
    have "(of_char x :: nat) < 256" by simp
    also have "(256 :: nat) < 2 ^ LENGTH(16)" by simp
    finally show ?thesis .
  qed
  have "(of_char c :: nat) = unat (of_nat (of_char c) :: 16 word)"
    by (rule sym) (rule of_nat_inverse [OF refl small])
  also have "\<dots> = unat (of_nat (of_char d) :: 16 word)"
    by (simp only: assms)
  also have "\<dots> = of_char d"
    by (rule of_nat_inverse [OF refl small])
  finally have "(of_char c :: nat) = of_char d" .
  then show ?thesis by simp
qed

lemma js_eq_iff [simp]: "js a = js b \<longleftrightarrow> a = b"
proof
  assume "js a = js b"
  then show "a = b"
    unfolding js_def
    by (induction a arbitrary: b) (auto dest: code_unit_inj)
qed simp

lemma js_Nil_iff [simp]: "js a = [] \<longleftrightarrow> a = []"
  by (simp add: js_def)

lemma msg_empty_input_nonempty: "msg_empty_input \<noteq> []"
  by (simp add: msg_empty_input_def)

lemma msg_need_mbti_nonempty: "msg_need_mbti \<noteq> []"
  by (simp add: msg_need_mbti_def)

lemma msg_error_prefix_nonempty: "msg_error_prefix \<noteq> []"
  by (simp add: msg_error_prefix_def)

lemma msg_mbti_save_failed_nonempty: "msg_mbti_save_failed \<noteq> []"
  by (simp add: msg_mbti_save_failed_def)

section \<open>Validation\<close>

text \<open>
  C1. Whatever the active tab, a submission with an empty prompt and no image payload
  is rejected on the spot: the outside is left as it was (no request is posted, no
  document written), the error slot holds the validation message, which is not empty,
  and prompt, image and file input keep their values.
\<close>

theorem empty_submission_rejected:
  assumes "prompt s = []" and "imageBase64 s = None"
  shows "(case getAiResponse env (s, w) of (s', w') \<Rightarrow>
           w' = w \<and> error s' = msg_empty_input \<and> error s' \<noteq> [] \<and>
           prompt s' = prompt s \<and> imageFile s' = imageFile s \<and>
           imageBase64 s' = imageBase64 s \<and> fileInput s' = fileInput s)"
  using assms
  by (simp add: getAiResponse_def truthy_str_def truthy_opt_def msg_empty_input_nonempty)

theorem empty_submission_rejected_witness:
  "prompt (init_state\<lparr>activeTab := js ''quiz''\<rparr>) = [] \<and>
   imageBase64 (init_state\<lparr>activeTab := js ''quiz''\<rparr>) = None \<and>
   (case getAiResponse (answering_env (Resolved (answer_body (js ''hi''))))
           (init_state\<lparr>activeTab := js ''quiz''\<rparr>, empty_world)
    of (s', w') \<Rightarrow>
      w' = empty_world \<and> error s' = msg_empty_input \<and> error s' \<noteq> [] \<and>
      prompt s' = [] \<and> imageFile s' = None \<and> imageBase64 s' = None \<and>
      fileInput s' = None)"
  using empty_submission_rejected
    [where s = "init_state\<lparr>activeTab := js ''quiz''\<rparr>"
       and env = "answering_env (Resolved (answer_body (js ''hi'')))"
       and w = empty_world]
  by (simp add: init_state_def)

text \<open>
  C2, as the code has it. On the mentor tab with no MBTI chosen, a submission that has
  a prompt text (or an image payload) is blocked: the outside is left as it was, the
  error slot holds the MBTI validation message, and the MBTI modal is opened. The
  check for an empty submission comes first (line 150), so with an empty prompt and no
  image the modal is not opened.
\<close>

theorem mentor_without_mbti_blocked:
  assumes "activeTab s = js ''mentor''" and "\<not> truthy_opt (studentMbti s)"
    and "prompt s \<noteq> [] \<or> truthy_opt (imageBase64 s)"
  shows "(case getAiResponse env (s, w) of (s', w') \<Rightarrow>
           w' = w \<and> error s' = msg_need_mbti \<and> error s' \<noteq> [] \<and> showMbtiModal s' \<and>
           prompt s' = prompt s)"
  using assms
  by (auto simp add: getAiResponse_def truthy_str_def msg_need_mbti_nonempty)

theorem mentor_without_mbti_blocked_witness:
  "activeTab (init_state\<lparr>prompt := js ''why''\<rparr>) = js ''mentor'' \<and>
   \<not> truthy_opt (studentMbti (init_state\<lparr>prompt := js ''why''\<rparr>)) \<and>
   prompt (init_state\<lparr>prompt := js ''why''\<rparr>) \<noteq> [] \<and>
   (case getAiResponse (answering_env (Resolved (answer_body (js ''hi''))))
           (init_state\<lparr>prompt := js ''why''\<rparr>, empty_world)
    of (s', w') \<Rightarrow>
      w' = empty_world \<and> error s' = msg_need_mbti \<and> error s' \<noteq> [] \<and>
      showMbtiModal s' \<and> prompt s' = js ''why'')"
  using mentor_without_mbti_blocked
    [where s = "init_state\<lparr>prompt := js ''why''\<rparr>"
       and env = "answering_env (Resolved (answer_body (js ''hi'')))"
       and w = empty_world]
  by (simp add: init_state_def truthy_opt_def)

text \<open>
  The claim of C2 for every prompt text fails at the empty one: in the starting state
  (mentor tab, no MBTI, empty prompt, no image) the submission is blocked with the
  message of the empty submission and the modal stays closed.
\<close>

theorem mentor_empty_prompt_counterexample:
  "activeTab init_state = js ''mentor'' \<and> studentMbti init_state = None \<and>
   prompt init_state = [] \<and>
   \<not> showMbtiModal (fst (getAiResponse (answering_env (Resolved (answer_body (js ''hi''))))
        (init_state, empty_world))) \<and>
   error (fst (getAiResponse (answering_env (Resolved (answer_body (js ''hi''))))
        (init_state, empty_world))) = msg_empty_input"
  by (simp add: getAiResponse_def init_state_def truthy_str_def truthy_opt_def)

section \<open>The gateway call\<close>

lemma requests_try_block: "requests (snd (try_block env s0 (s, w))) = requests w"
  by (auto simp add: try_block_def catch_block_def Let_def split: promise.splits prod.splits)

lemma requests_finally_block: "requests (snd (finally_block sw)) = requests (snd sw)"
  by (simp add: finally_block_def split: prod.splits)

text \<open>
  When the request is posted: both checks pass and the body could be built. Then the
  handler runs the \<^verbatim>\<open>try\<close> block and the \<^verbatim>\<open>finally\<close> block.
\<close>

lemma gateway_called:
  assumes run: "getAiResponse env (s, w) = (s', w')"
    and posted: "requests w' = requests w @ [body]"
  shows "build_payload s = Some body"
    and "(s', w') = finally_block (try_block env s
           (s\<lparr>isLoading := True, response := JStr [], error := []\<rparr>,
            w\<lparr>requests := requests w @ [body]\<rparr>))"
proof -
  have checks: "\<not> (\<not> truthy_str (prompt s) \<and> \<not> truthy_opt (imageBase64 s))"
    "\<not> (activeTab s = js ''mentor'' \<and> \<not> truthy_opt (studentMbti s))"
    using run posted by (auto simp add: getAiResponse_def split: if_splits)
  obtain b where b: "build_payload s = Some b"
    using run posted checks by (cases "build_payload s") (auto simp add: getAiResponse_def)
  have unfolded: "(s', w') = finally_block (try_block env s
           (s\<lparr>isLoading := True, response := JStr [], error := []\<rparr>,
            w\<lparr>requests := requests w @ [b]\<rparr>))"
    using run checks b by (simp add: getAiResponse_def)
  have "requests w' = requests w @ [b]"
    using arg_cong [OF unfolded, of "\<lambda>r. requests (snd r)"]
    by (simp add: requests_finally_block requests_try_block)
  with posted have "b = body" by simp
  with b unfolded show "build_payload s = Some body"
    and "(s', w') = finally_block (try_block env s
           (s\<lparr>isLoading := True, response := JStr [], error := []\<rparr>,
            w\<lparr>requests := requests w @ [body]\<rparr>))"
    by simp_all
qed

text \<open>The inputs on which the request is posted.\<close>

lemma gateway_called_iff:
  "(\<exists>body. requests (snd (getAiResponse env (s, w))) = requests w @ [body]) \<longleftrightarrow>
     (truthy_str (prompt s) \<or> truthy_opt (imageBase64 s)) \<and>
     (activeTab s = js ''mentor'' \<longrightarrow> truthy_opt (studentMbti s)) \<and>
     build_payload s \<noteq> None"
  by (cases "build_payload s")
    (auto simp add: getAiResponse_def requests_finally_block requests_try_block)

lemma finally_block_eq:
  "finally_block sw =
     ((fst sw)\<lparr>isLoading := False, prompt := [], imageFile := None, imageBase64 := None,
        fileInput := (case fileInput (fst sw) of None \<Rightarrow> None | Some v \<Rightarrow> Some [])\<rparr>,
      snd sw)"
  by (simp add: finally_block_def split: prod.splits)

lemma fileInput_try_block: "fileInput (fst (try_block env s0 (s, w))) = fileInput s"
  by (auto simp add: try_block_def catch_block_def Let_def split: promise.splits prod.splits)

lemma try_block_not_ok:
  assumes "fetch_result env = Resolved r" and "\<not> ok r"
  shows "try_block env s0 (s, w) =
           (s\<lparr>error := msg_error_prefix @ msg_api_failed @ statusText r\<rparr>, w)"
  using assms by (simp add: try_block_def catch_block_def)

text \<open>
  C4. Whenever the request has been posted, the handler ends with the loading flag
  off, the prompt empty, the image file and its payload removed and the value of the
  file input (where the reference points to one) emptied, whatever the endpoint and
  the store answered. When the endpoint answers with a status that is not ok, no
  document is added to the history collection and the error slot holds a message that
  is not empty: the prefix of the catch block, then the text of the thrown error.
\<close>

theorem failed_call_writes_nothing_and_cleanup_always_runs:
  assumes "getAiResponse env (s, w) = (s', w')"
    and "requests w' = requests w @ [body]"
  shows "\<not> isLoading s' \<and> prompt s' = [] \<and> imageFile s' = None \<and> imageBase64 s' = None \<and>
         fileInput s' = (case fileInput s of None \<Rightarrow> None | Some v \<Rightarrow> Some []) \<and>
         (\<forall>r. fetch_result env = Resolved r \<and> \<not> ok r \<longrightarrow>
            studyHistory w' = studyHistory w \<and>
            error s' = msg_error_prefix @ msg_api_failed @ statusText r \<and>
            error s' \<noteq> [])"
proof -
  let ?mid = "try_block env s
           (s\<lparr>isLoading := True, response := JStr [], error := []\<rparr>,
            w\<lparr>requests := requests w @ [body]\<rparr>)"
  have res: "(s', w') = finally_block ?mid"
    by (rule gateway_called(2) [OF assms])
  have s': "s' = fst (finally_block ?mid)"
    using res by (metis fst_conv)
  have w': "w' = snd (finally_block ?mid)"
    using res by (metis snd_conv)
  have cleanup: "\<not> isLoading s' \<and> prompt s' = [] \<and> imageFile s' = None \<and>
      imageBase64 s' = None"
    unfolding s' by (simp add: finally_block_eq)
  have picker: "fileInput s' = (case fileInput s of None \<Rightarrow> None | Some v \<Rightarrow> Some [])"
    unfolding s' by (simp add: finally_block_eq fileInput_try_block)
  have failed: "studyHistory w' = studyHistory w \<and>
      error s' = msg_error_prefix @ msg_api_failed @ statusText r \<and> error s' \<noteq> []"
    if "fetch_result env = Resolved r" and "\<not> ok r" for r
    unfolding s' w'
    by (simp add: try_block_not_ok [OF that] finally_block_eq msg_error_prefix_nonempty)
  from cleanup picker failed show ?thesis by blast
qed

lemma fullPrompt_qa: "fullPrompt (js ''qa'') m p = tmpl_qa @ p"
  by (simp add: fullPrompt_def)

lemma getAiResponse_qa_submission:
  "getAiResponse env (qa_submission, w) =
     finally_block (try_block env qa_submission
       (qa_submission\<lparr>isLoading := True, response := JStr [], error := []\<rparr>,
        w\<lparr>requests := requests w @ [qa_body]\<rparr>))"
  by (simp add: getAiResponse_def build_payload_def fullPrompt_qa qa_body_def
      qa_submission_def signed_in_state_def init_state_def truthy_str_def)

theorem failed_call_writes_nothing_and_cleanup_always_runs_witness:
  "(case getAiResponse failing_env (image_submission, empty_world) of (s', w') \<Rightarrow>
      requests w' = requests empty_world @
        [\<lparr>contents = [\<lparr>role = js ''user'', parts =
           [TextPart (tmpl_image @ js ''x''), InlineData (js ''image/png'') (js ''aGk='')]\<rparr>]\<rparr>] \<and>
      \<not> isLoading s' \<and> prompt s' = [] \<and> imageFile s' = None \<and> imageBase64 s' = None \<and>
      fileInput s' = Some [] \<and> studyHistory w' = [] \<and>
      error s' = msg_error_prefix @ msg_api_failed @ js ''Internal Server Error'' \<and>
      error s' \<noteq> [])"
proof -
  obtain s' w' where run: "getAiResponse failing_env (image_submission, empty_world) = (s', w')"
    by fastforce
  have posted: "requests w' = requests empty_world @
        [\<lparr>contents = [\<lparr>role = js ''user'', parts =
           [TextPart (tmpl_image @ js ''x''), InlineData (js ''image/png'') (js ''aGk='')]\<rparr>]\<rparr>]"
    using run
    by (auto simp add: getAiResponse_def build_payload_def fullPrompt_def finally_block_eq
        try_block_def catch_block_def failing_env_def image_submission_def png_file_def
        signed_in_state_def init_state_def empty_world_def truthy_str_def truthy_opt_def)
  show ?thesis
    unfolding run
    using failed_call_writes_nothing_and_cleanup_always_runs [OF run posted] posted
    by (simp add: failing_env_def image_submission_def empty_world_def)
qed

section \<open>Writing the exchange\<close>

lemma store_commit_eq:
  "store_commit i t d =
     \<lparr>item_id = i, item_type = data_type d, item_prompt = data_prompt d,
      item_response = data_response d, item_mbti = data_mbti d, item_timestamp = Some t\<rparr>"
  by (cases "data_timestamp d") (simp add: store_commit_def)

text \<open>The three ways the \<^verbatim>\<open>try\<close> block ends after a response that is ok and parses.\<close>

lemma try_block_written:
  assumes "fetch_result env = Resolved r" and "ok r" and "json_body r = Resolved j"
    and "j \<noteq> JNull" and "db s0" and "truthy_opt (userId s0)"
    and "addDoc_result env = Resolved (i, t)"
  shows "try_block env s0 (s, w) =
           (s\<lparr>response := generatedText j\<rparr>,
            w\<lparr>studyHistory := studyHistory w @
              [\<lparr>item_id = i, item_type = activeTab s0, item_prompt = prompt s0,
                item_response = generatedText j,
                item_mbti = (if truthy_opt (studentMbti s0) then studentMbti s0 else None),
                item_timestamp = Some t\<rparr>]\<rparr>)"
  using assms by (simp add: try_block_def store_commit_eq)

lemma try_block_not_stored:
  assumes "fetch_result env = Resolved r" and "ok r" and "json_body r = Resolved j"
    and "j \<noteq> JNull" and "\<not> (db s0 \<and> truthy_opt (userId s0))"
  shows "try_block env s0 (s, w) = (s\<lparr>response := generatedText j\<rparr>, w)"
  using assms by (auto simp add: try_block_def)

lemma try_block_history:
  "studyHistory (snd (try_block env s0 (s, w))) = studyHistory w \<or>
   (\<exists>r j i t d. fetch_result env = Resolved r \<and> ok r \<and> json_body r = Resolved j \<and>
      j \<noteq> JNull \<and> db s0 \<and> truthy_opt (userId s0) \<and> addDoc_result env = Resolved (i, t) \<and>
      studyHistory (snd (try_block env s0 (s, w))) = studyHistory w @ [d])"
  by (auto simp add: try_block_def catch_block_def Let_def split: promise.splits prod.splits)

text \<open>A run either leaves the outside as it was or posts one request and goes on.\<close>

lemma getAiResponse_cases:
  assumes "getAiResponse env (s, w) = (s', w')"
  shows "w' = w \<or>
    (\<exists>body. finally_block (try_block env s
           (s\<lparr>isLoading := True, response := JStr [], error := []\<rparr>,
            w\<lparr>requests := requests w @ [body]\<rparr>)) = (s', w'))"
  using assms
  by (cases "build_payload s") (auto simp add: getAiResponse_def split: if_splits)

text \<open>
  C3, as the code has it. After a gateway call that succeeds (the request was posted,
  the response is ok and its body parses to a value other than \<^verbatim>\<open>null\<close>), when the
  store handle and the user id are set and the store accepts the write, the history
  collection has grown by exactly one document: its type, prompt and response are the
  active tab, the prompt and the generated text of this call, its MBTI is the student's
  if one is set, and its timestamp is the time the store assigned. Without a store
  handle or a user id (the guard of line 203) nothing is written. Whenever a run has
  changed the collection, the request had been posted and had got an ok response whose
  body parsed, and the change is one added document.
\<close>

theorem exchange_written_once_after_success:
  assumes "getAiResponse env (s, w) = (s', w')"
  shows "(\<forall>body r j i t.
            requests w' = requests w @ [body] \<and> fetch_result env = Resolved r \<and> ok r \<and>
            json_body r = Resolved j \<and> j \<noteq> JNull \<and> db s \<and> truthy_opt (userId s) \<and>
            addDoc_result env = Resolved (i, t) \<longrightarrow>
            response s' = generatedText j \<and>
            studyHistory w' = studyHistory w @
              [\<lparr>item_id = i, item_type = activeTab s, item_prompt = prompt s,
                item_response = generatedText j,
                item_mbti = (if truthy_opt (studentMbti s) then studentMbti s else None),
                item_timestamp = Some t\<rparr>]) \<and>
         (\<not> (db s \<and> truthy_opt (userId s)) \<longrightarrow> studyHistory w' = studyHistory w) \<and>
         (studyHistory w' \<noteq> studyHistory w \<longrightarrow>
            (\<exists>body r j d. requests w' = requests w @ [body] \<and>
               fetch_result env = Resolved r \<and> ok r \<and> json_body r = Resolved j \<and>
               j \<noteq> JNull \<and> studyHistory w' = studyHistory w @ [d]))"
proof (intro conjI allI impI)
  fix body r j i t
  assume h: "requests w' = requests w @ [body] \<and> fetch_result env = Resolved r \<and> ok r \<and>
            json_body r = Resolved j \<and> j \<noteq> JNull \<and> db s \<and> truthy_opt (userId s) \<and>
            addDoc_result env = Resolved (i, t)"
  then have posted: "requests w' = requests w @ [body]" by simp
  have "(s', w') = finally_block (try_block env s
           (s\<lparr>isLoading := True, response := JStr [], error := []\<rparr>,
            w\<lparr>requests := requests w @ [body]\<rparr>))"
    by (rule gateway_called(2) [OF assms posted])
  also have "\<dots> = finally_block
           (s\<lparr>isLoading := True, response := JStr [], error := [],
              response := generatedText j\<rparr>,
            w\<lparr>requests := requests w @ [body],
              studyHistory := studyHistory w @
              [\<lparr>item_id = i, item_type = activeTab s, item_prompt = prompt s,
                item_response = generatedText j,
                item_mbti = (if truthy_opt (studentMbti s) then studentMbti s else None),
                item_timestamp = Some t\<rparr>]\<rparr>)"
    using h by (simp add: try_block_written [where r = r and j = j and i = i and t = t])
  finally have "(s', w') = finally_block
           (s\<lparr>isLoading := True, response := JStr [], error := [],
              response := generatedText j\<rparr>,
            w\<lparr>requests := requests w @ [body],
              studyHistory := studyHistory w @
              [\<lparr>item_id = i, item_type = activeTab s, item_prompt = prompt s,
                item_response = generatedText j,
                item_mbti = (if truthy_opt (studentMbti s) then studentMbti s else None),
                item_timestamp = Some t\<rparr>]\<rparr>)" .
  then have s': "s' = fst (finally_block
           (s\<lparr>isLoading := True, response := JStr [], error := [],
              response := generatedText j\<rparr>,
            w\<lparr>requests := requests w @ [body],
              studyHistory := studyHistory w @
              [\<lparr>item_id = i, item_type = activeTab s, item_prompt = prompt s,
                item_response = generatedText j,
                item_mbti = (if truthy_opt (studentMbti s) then studentMbti s else None),
                item_timestamp = Some t\<rparr>]\<rparr>))"
    and w': "w' = snd (finally_block
           (s\<lparr>isLoading := True, response := JStr [], error := [],
              response := generatedText j\<rparr>,
            w\<lparr>requests := requests w @ [body],
              studyHistory := studyHistory w @
              [\<lparr>item_id = i, item_type = activeTab s, item_prompt = prompt s,
                item_response = generatedText j,
                item_mbti = (if truthy_opt (studentMbti s) then studentMbti s else None),
                item_timestamp = Some t\<rparr>]\<rparr>))"
    by (metis fst_conv, metis snd_conv)
  show "response s' = generatedText j"
    unfolding s' by (simp add: finally_block_eq)
  show "studyHistory w' = studyHistory w @
              [\<lparr>item_id = i, item_type = activeTab s, item_prompt = prompt s,
                item_response = generatedText j,
                item_mbti = (if truthy_opt (studentMbti s) then studentMbti s else None),
                item_timestamp = Some t\<rparr>]"
    unfolding w' by (simp add: finally_block_eq)
next
  assume absent: "\<not> (db s \<and> truthy_opt (userId s))"
  from getAiResponse_cases [OF assms] show "studyHistory w' = studyHistory w"
  proof
    assume "w' = w" then show ?thesis by simp
  next
    assume "\<exists>body. finally_block (try_block env s
           (s\<lparr>isLoading := True, response := JStr [], error := []\<rparr>,
            w\<lparr>requests := requests w @ [body]\<rparr>)) = (s', w')"
    then obtain body where "finally_block (try_block env s
           (s\<lparr>isLoading := True, response := JStr [], error := []\<rparr>,
            w\<lparr>requests := requests w @ [body]\<rparr>)) = (s', w')" ..
    then have w': "w' = snd (try_block env s
           (s\<lparr>isLoading := True, response := JStr [], error := []\<rparr>,
            w\<lparr>requests := requests w @ [body]\<rparr>))"
      by (simp add: finally_block_eq)
    show ?thesis
      using absent
        try_block_history [of env s "s\<lparr>isLoading := True, response := JStr [], error := []\<rparr>"
          "w\<lparr>requests := requests w @ [body]\<rparr>"]
      unfolding w' by auto
  qed
next
  assume changed: "studyHistory w' \<noteq> studyHistory w"
  from getAiResponse_cases [OF assms] changed
  obtain body where "finally_block (try_block env s
           (s\<lparr>isLoading := True, response := JStr [], error := []\<rparr>,
            w\<lparr>requests := requests w @ [body]\<rparr>)) = (s', w')"
    by auto
  then have w': "w' = snd (try_block env s
           (s\<lparr>isLoading := True, response := JStr [], error := []\<rparr>,
            w\<lparr>requests := requests w @ [body]\<rparr>))"
    by (simp add: finally_block_eq)
  have posted: "requests w' = requests w @ [body]"
    unfolding w' by (simp add: requests_try_block)
  show "\<exists>body r j d. requests w' = requests w @ [body] \<and>
               fetch_result env = Resolved r \<and> ok r \<and> json_body r = Resolved j \<and>
               j \<noteq> JNull \<and> studyHistory w' = studyHistory w @ [d]"
    using changed posted
      try_block_history [of env s "s\<lparr>isLoading := True, response := JStr [], error := []\<rparr>"
          "w\<lparr>requests := requests w @ [body]\<rparr>"]
    unfolding w' by auto
qed

lemma generatedText_answer_body:
  "generatedText (answer_body t) = (if t = [] then JStr msg_no_valid_response else JStr t)"
  by (simp add: generatedText_def extract_text_def answer_body_def opt_chain_def
      truthy_str_def)

lemma answer_body_not_null: "answer_body t \<noteq> JNull"
  by (simp add: answer_body_def)

theorem exchange_written_once_after_success_witness:
  "(case getAiResponse (answering_env (Resolved (answer_body (js ''hi''))))
           (qa_submission, empty_world)
    of (s', w') \<Rightarrow>
      requests w' = requests empty_world @ [qa_body] \<and>
      response s' = JStr (js ''hi'') \<and>
      studyHistory w' =
        [\<lparr>item_id = js ''doc-1'', item_type = js ''qa'', item_prompt = js ''x'',
          item_response = JStr (js ''hi''), item_mbti = None,
          item_timestamp = Some assigned_time\<rparr>])"
proof -
  obtain s' w' where run: "getAiResponse (answering_env (Resolved (answer_body (js ''hi''))))
      (qa_submission, empty_world) = (s', w')"
    by fastforce
  have posted: "requests w' = requests empty_world @ [qa_body]"
    using arg_cong [OF run, of "\<lambda>r. requests (snd r)"]
    by (simp add: getAiResponse_qa_submission requests_finally_block requests_try_block)
  show ?thesis
    unfolding run
    using exchange_written_once_after_success [OF run] posted
    by (simp add: answering_env_def generatedText_answer_body answer_body_not_null
        qa_submission_def signed_in_state_def init_state_def empty_world_def
        truthy_opt_def truthy_str_def)
qed

text \<open>
  The claim of C3 for every successful call fails where line 203 finds no store handle:
  before Firebase is initialised the question is posted and answered, the answer is
  shown with no error, and the history collection stays empty.
\<close>

theorem answered_without_store_counterexample:
  "requests (snd (getAiResponse (answering_env (Resolved (answer_body (js ''hi''))))
      (qa_submission_offline, empty_world))) = [qa_body] \<and>
   response (fst (getAiResponse (answering_env (Resolved (answer_body (js ''hi''))))
      (qa_submission_offline, empty_world))) = JStr (js ''hi'') \<and>
   error (fst (getAiResponse (answering_env (Resolved (answer_body (js ''hi''))))
      (qa_submission_offline, empty_world))) = [] \<and>
   studyHistory (snd (getAiResponse (answering_env (Resolved (answer_body (js ''hi''))))
      (qa_submission_offline, empty_world))) = []"
  by (simp add: getAiResponse_def build_payload_def fullPrompt_qa qa_body_def
      try_block_def finally_block_eq answering_env_def generatedText_answer_body
      answer_body_not_null qa_submission_offline_def init_state_def empty_world_def
      truthy_str_def truthy_opt_def)

section \<open>The placeholder\<close>

lemma response_try_block:
  assumes "fetch_result env = Resolved r" and "ok r" and "json_body r = Resolved j"
    and "j \<noteq> JNull"
  shows "response (fst (try_block env s0 (s, w))) = generatedText j"
  using assms
  by (auto simp add: try_block_def catch_block_def Let_def split: promise.splits prod.splits)

text \<open>
  C7, as the code has it. When the request was posted and the response is ok with a
  body that parses to a value other than \<^verbatim>\<open>null\<close> in which the text of the first
  part of the first candidate is missing (or falsy), the response shown is the fixed
  placeholder; and when the store handle and the user id are set and the store accepts
  the write, no error is set and the one document added to the history collection
  carries the placeholder as its response, next to the tab, prompt and MBTI of the
  call. A body that does not parse takes the catch block instead.
\<close>

theorem missing_text_gives_placeholder:
  assumes "getAiResponse env (s, w) = (s', w')"
    and "requests w' = requests w @ [body]"
    and "fetch_result env = Resolved r" and "ok r"
    and "json_body r = Resolved j" and "j \<noteq> JNull"
    and "\<not> truthy (extract_text j)"
  shows "response s' = JStr msg_no_valid_response \<and>
         (\<forall>i t. db s \<and> truthy_opt (userId s) \<and> addDoc_result env = Resolved (i, t) \<longrightarrow>
            error s' = [] \<and>
            studyHistory w' = studyHistory w @
              [\<lparr>item_id = i, item_type = activeTab s, item_prompt = prompt s,
                item_response = JStr msg_no_valid_response,
                item_mbti = (if truthy_opt (studentMbti s) then studentMbti s else None),
                item_timestamp = Some t\<rparr>])"
proof -
  let ?mid = "try_block env s
           (s\<lparr>isLoading := True, response := JStr [], error := []\<rparr>,
            w\<lparr>requests := requests w @ [body]\<rparr>)"
  have placeholder: "generatedText j = JStr msg_no_valid_response"
    using assms(7) by (simp add: generatedText_def)
  have res: "(s', w') = finally_block ?mid"
    by (rule gateway_called(2) [OF assms(1,2)])
  have s': "s' = fst (finally_block ?mid)"
    using res by (metis fst_conv)
  have w': "w' = snd (finally_block ?mid)"
    using res by (metis snd_conv)
  have shown: "response s' = JStr msg_no_valid_response"
    unfolding s'
    by (simp add: finally_block_eq response_try_block [OF assms(3-6)] placeholder)
  have stored: "error s' = [] \<and>
            studyHistory w' = studyHistory w @
              [\<lparr>item_id = i, item_type = activeTab s, item_prompt = prompt s,
                item_response = JStr msg_no_valid_response,
                item_mbti = (if truthy_opt (studentMbti s) then studentMbti s else None),
                item_timestamp = Some t\<rparr>]"
    if "db s \<and> truthy_opt (userId s) \<and> addDoc_result env = Resolved (i, t)" for i t
    unfolding s' w'
    using that
    by (simp add: finally_block_eq placeholder
        try_block_written [OF assms(3-6), where i = i and t = t])
  from shown stored show ?thesis by blast
qed

theorem missing_text_gives_placeholder_witness:
  "(case getAiResponse (answering_env (Resolved (JObj [(js ''candidates'', JArr [])])))
           (qa_submission, empty_world)
    of (s', w') \<Rightarrow>
      requests w' = requests empty_world @ [qa_body] \<and>
      \<not> truthy (extract_text (JObj [(js ''candidates'', JArr [])])) \<and>
      response s' = JStr msg_no_valid_response \<and> error s' = [] \<and>
      studyHistory w' =
        [\<lparr>item_id = js ''doc-1'', item_type = js ''qa'', item_prompt = js ''x'',
          item_response = JStr msg_no_valid_response, item_mbti = None,
          item_timestamp = Some assigned_time\<rparr>])"
proof -
  obtain s' w' where run:
    "getAiResponse (answering_env (Resolved (JObj [(js ''candidates'', JArr [])])))
      (qa_submission, empty_world) = (s', w')"
    by fastforce
  have posted: "requests w' = requests empty_world @ [qa_body]"
    using arg_cong [OF run, of "\<lambda>r. requests (snd r)"]
    by (simp add: getAiResponse_qa_submission requests_finally_block requests_try_block)
  have fetched: "fetch_result (answering_env (Resolved (JObj [(js ''candidates'', JArr [])])))
      = Resolved \<lparr>ok = True, statusText = js ''OK'',
          json_body = Resolved (JObj [(js ''candidates'', JArr [])])\<rparr>"
    by (simp add: answering_env_def)
  have no_text: "\<not> truthy (extract_text (JObj [(js ''candidates'', JArr [])]))"
    by (simp add: extract_text_def opt_chain_def)
  show ?thesis
    unfolding run
    using missing_text_gives_placeholder [OF run posted fetched _ _ _ no_text] posted no_text
    by (simp add: answering_env_def qa_submission_def signed_in_state_def init_state_def
        empty_world_def truthy_opt_def truthy_str_def)
qed

text \<open>
  The claim of C7 for every response body fails at a body that is not JSON: with status
  200 and such a body, \<^verbatim>\<open>json()\<close> rejects, the catch block sets the error message,
  the response stays empty (it is not the placeholder) and nothing is written, although
  the user is signed in and the store would accept the write.
\<close>

theorem unparsable_body_counterexample:
  "requests (snd (getAiResponse (answering_env (Rejected (js ''Unexpected token'')))
      (qa_submission, empty_world))) = [qa_body] \<and>
   response (fst (getAiResponse (answering_env (Rejected (js ''Unexpected token'')))
      (qa_submission, empty_world))) = JStr [] \<and>
   JStr [] \<noteq> JStr msg_no_valid_response \<and>
   error (fst (getAiResponse (answering_env (Rejected (js ''Unexpected token'')))
      (qa_submission, empty_world))) = msg_error_prefix @ js ''Unexpected token'' \<and>
   studyHistory (snd (getAiResponse (answering_env (Rejected (js ''Unexpected token'')))
      (qa_submission, empty_world))) = []"
  unfolding getAiResponse_qa_submission
  by (simp add: try_block_def catch_block_def finally_block_eq
      answering_env_def qa_submission_def signed_in_state_def init_state_def empty_world_def
      msg_no_valid_response_def)

text \<open>
  A body that is the JSON value \<^verbatim>\<open>null\<close> takes the catch block as well: line 200
  reads \<^verbatim>\<open>result.candidates\<close> with no optional chaining on \<^verbatim>\<open>result\<close>.
\<close>

lemma null_body_is_an_error:
  "response (fst (getAiResponse (answering_env (Resolved JNull))
      (qa_submission, empty_world))) = JStr [] \<and>
   error (fst (getAiResponse (answering_env (Resolved JNull))
      (qa_submission, empty_world))) =
     msg_error_prefix @ js ''Cannot read properties of null'' \<and>
   studyHistory (snd (getAiResponse (answering_env (Resolved JNull))
      (qa_submission, empty_world))) = []"
  unfolding getAiResponse_qa_submission
  by (simp add: try_block_def catch_block_def finally_block_eq
      answering_env_def qa_submission_def signed_in_state_def init_state_def empty_world_def)

section \<open>The request body\<close>

text \<open>
  C5. On the Q&A tab the template is the fixed wrapper of line 180, twenty code units
  that end with a colon and a space, followed by the prompt: every code unit of the
  prompt, in its order, whatever the prompt and the MBTI. This text is the one part of
  the request body built on that tab.
\<close>

theorem qa_template_verbatim:
  "fullPrompt (js ''qa'') m X =
     [0xB2E4, 0xC74C, 0x0020, 0xC9C8, 0xBB38, 0xC5D0, 0x0020, 0xB300, 0xD574, 0x0020,
      0xC790, 0xC138, 0xD788, 0x0020, 0xB2F5, 0xBCC0, 0xD574, 0xC918, 0x003A, 0x0020] @ X \<and>
   build_payload (s\<lparr>activeTab := js ''qa'', prompt := X\<rparr>) =
     Some \<lparr>contents = [\<lparr>role = js ''user'', parts = [TextPart
       ([0xB2E4, 0xC74C, 0x0020, 0xC9C8, 0xBB38, 0xC5D0, 0x0020, 0xB300, 0xD574, 0x0020,
         0xC790, 0xC138, 0xD788, 0x0020, 0xB2F5, 0xBCC0, 0xD574, 0xC918, 0x003A, 0x0020] @ X)]\<rparr>]\<rparr>"
  by (simp add: build_payload_def fullPrompt_qa tmpl_qa_def)

text \<open>
  C8, as the code has it. The body of a posted request has one content with the role
  \<^verbatim>\<open>user\<close>. Its first part is the text of the template. On the image tab with an
  image payload that is not empty, a second part follows with the type of the picked
  file and the payload; on every other tab, and without a payload, the text is the only
  part, whether or not an image is still attached.
\<close>

theorem inline_data_only_on_image_tab:
  assumes "getAiResponse env (s, w) = (s', w')"
    and "requests w' = requests w @ [body]"
  shows "body = \<lparr>contents = [\<lparr>role = js ''user'',
           parts = TextPart (fullPrompt (activeTab s) (studentMbti s) (prompt s)) #
             (case (imageFile s, imageBase64 s) of
                (Some f, Some b) \<Rightarrow>
                  if activeTab s = js ''image'' \<and> b \<noteq> [] then [InlineData (file_type f) b]
                  else []
              | other \<Rightarrow> [])\<rparr>]\<rparr>"
  using gateway_called(1) [OF assms]
  by (auto simp add: build_payload_def truthy_opt_def truthy_str_def Let_def
      split: option.splits if_splits)

theorem inline_data_only_on_image_tab_witness:
  "(case getAiResponse failing_env (image_submission, empty_world) of (s', w') \<Rightarrow>
      requests w' = requests empty_world @
        [\<lparr>contents = [\<lparr>role = js ''user'', parts =
           [TextPart (tmpl_image @ js ''x''),
            InlineData (js ''image/png'') (js ''aGk='')]\<rparr>]\<rparr>])"
proof -
  obtain s' w' where run: "getAiResponse failing_env (image_submission, empty_world) = (s', w')"
    by fastforce
  obtain body where posted: "requests w' = requests empty_world @ [body]"
    using run
    by (auto simp add: getAiResponse_def build_payload_def finally_block_eq
        try_block_def catch_block_def failing_env_def image_submission_def png_file_def
        signed_in_state_def init_state_def empty_world_def truthy_str_def truthy_opt_def)
  show ?thesis
    unfolding run
    using inline_data_only_on_image_tab [OF run posted] posted
    by (simp add: fullPrompt_def image_submission_def png_file_def signed_in_state_def
        init_state_def)
qed

text \<open>
  The claim of C8 for every attached image fails off the image tab: with an image still
  attached on the Q&A tab, the posted body has the text part only.
\<close>

theorem image_attached_on_qa_tab_counterexample:
  "imageFile qa_submission_with_image = Some png_file \<and>
   imageBase64 qa_submission_with_image = Some (js ''aGk='') \<and>
   requests (snd (getAiResponse failing_env (qa_submission_with_image, empty_world))) =
     [\<lparr>contents = [\<lparr>role = js ''user'', parts = [TextPart (tmpl_qa @ js ''x'')]\<rparr>]\<rparr>]"
  by (simp add: getAiResponse_def build_payload_def fullPrompt_qa finally_block_eq
      try_block_def catch_block_def failing_env_def qa_submission_with_image_def
      signed_in_state_def init_state_def empty_world_def truthy_str_def truthy_opt_def)

section \<open>Recalling and choosing\<close>

text \<open>
  C9. Clicking an entry of the history list puts its type, prompt and response into the
  active tab, the prompt and the response of the component, and leaves the outside as
  it was: no request is posted and no document is written.
\<close>

theorem history_click_recalls_without_calls:
  "(case historyClick item (s, w) of (s', w') \<Rightarrow>
      activeTab s' = item_type item \<and> prompt s' = item_prompt item \<and>
      response s' = item_response item \<and>
      requests w' = requests w \<and> studyHistory w' = studyHistory w \<and> w' = w)"
  by (simp add: historyClick_def)

text \<open>
  C10, as the code has it. When the store handle and the user id are set (the guard of
  line 123), choosing an MBTI sets the
  student's MBTI to the chosen one whatever becomes of the write. If the write
  fails, the error slot holds the save message, the modal is as it was and the profile
  document is unchanged, so the component holds a category the store does not. If the
  write succeeds, the modal is closed and the profile document holds the category.
\<close>

theorem mbti_set_locally_before_write:
  assumes "db s" and "truthy_opt (userId s)"
    and "handleMbtiSelect setDoc_result mbti (s, w) = (s', w')"
  shows "studentMbti s' = Some mbti \<and>
         (case setDoc_result of
            Rejected m \<Rightarrow>
              error s' = msg_mbti_save_failed \<and> error s' \<noteq> [] \<and>
              showMbtiModal s' = showMbtiModal s \<and> profileDoc w' = profileDoc w
          | Resolved u \<Rightarrow>
              \<not> showMbtiModal s' \<and> error s' = error s \<and>
              profileDoc w' (js ''mbti'') = Some mbti)"
  using assms
  by (auto simp add: handleMbtiSelect_def Let_def msg_mbti_save_failed_nonempty
      split: promise.splits)

theorem mbti_set_locally_before_write_witness:
  "db (signed_in_state\<lparr>showMbtiModal := True\<rparr>) \<and>
   truthy_opt (userId (signed_in_state\<lparr>showMbtiModal := True\<rparr>)) \<and>
   (case handleMbtiSelect (Rejected (js ''unavailable'')) (js ''INTJ'')
           (signed_in_state\<lparr>showMbtiModal := True\<rparr>, empty_world)
    of (s', w') \<Rightarrow>
      studentMbti s' = Some (js ''INTJ'') \<and> error s' = msg_mbti_save_failed \<and>
      error s' \<noteq> [] \<and> showMbtiModal s' \<and> profileDoc w' (js ''mbti'') = None)"
proof -
  obtain s' w' where run:
    "handleMbtiSelect (Rejected (js ''unavailable'')) (js ''INTJ'')
           (signed_in_state\<lparr>showMbtiModal := True\<rparr>, empty_world) = (s', w')"
    by fastforce
  have signed_in: "db (signed_in_state\<lparr>showMbtiModal := True\<rparr>)"
    "truthy_opt (userId (signed_in_state\<lparr>showMbtiModal := True\<rparr>))"
    by (simp_all add: signed_in_state_def init_state_def truthy_opt_def truthy_str_def)
  show ?thesis
    unfolding run
    using mbti_set_locally_before_write [OF signed_in run] signed_in
    by (simp add: empty_world_def msg_mbti_save_failed_nonempty)
qed

text \<open>
  The claim of C10 for every selection fails without a store handle: the handler
  returns on line 123, so the choice is not taken over, no write is attempted and the
  modal stays open.
\<close>

theorem mbti_choice_without_store_counterexample:
  "studentMbti (fst (handleMbtiSelect (Resolved ()) (js ''INTJ'')
      (modal_open_offline, empty_world))) = None \<and>
   showMbtiModal (fst (handleMbtiSelect (Resolved ()) (js ''INTJ'')
      (modal_open_offline, empty_world))) \<and>
   snd (handleMbtiSelect (Resolved ()) (js ''INTJ'')
      (modal_open_offline, empty_world)) = empty_world"
  by (simp add: handleMbtiSelect_def modal_open_offline_def init_state_def)

section \<open>The history list\<close>














text \<open>
  A document dated before the epoch sorts after a document with no time yet, which
  counts as the epoch.
\<close>

lemma pre_epoch_after_pending:
  "date_of pre_epoch_doc = Some (- 1000) \<and> date_of pending_doc = None \<and>
   history (onSnapshot_next [pre_epoch_doc, pending_doc] init_state) =
     [pending_doc, pre_epoch_doc]"
  by (simp add: onSnapshot_next_def js_sort_def compare_history_def ts_millis_def
      date_of_def toDate_def pre_epoch_doc_def pending_doc_def history_doc_def)

end
